theory Spec2Isabelle
  imports Complex_Main "HOL-Library.AList" "HOL-Library.Sublist"
begin

section \<open>Python values and strings\<close>

text \<open>
  The dictionaries of the program (\<open>context\<close>, \<open>booking_data\<close>, the transaction
  payloads) are typed \<open>Dict[str, Any]\<close>. A value is \<open>None\<close>, a boolean, an integer or
  a string (floats and nested containers are left out); a dictionary
  is an association list in insertion order, read with \<open>map_of\<close>, written with
  \<open>AList.update\<close> (an existing key keeps its place, a new key goes to the end) and
  shrunk with \<open>AList.delete\<close>.
\<close>

datatype pyval = VNone | VBool bool | VInt int | VStr string

type_synonym pydict = "(string \<times> pyval) list"

text \<open>Decimal digits of a natural number, for \<open>str\<close> of an integer.\<close>

fun nat_digits :: "nat \<Rightarrow> string" where
  "nat_digits n =
     (if n < 10 then [char_of (48 + n)]
      else nat_digits (n div 10) @ [char_of (48 + n mod 10)])"

declare nat_digits.simps [simp del]

definition str_of_int :: "int \<Rightarrow> string" where
  "str_of_int i = (if i < 0 then CHR ''-'' # nat_digits (nat (- i)) else nat_digits (nat i))"

text \<open>\<open>str(v)\<close>, which is what an f-string placeholder \<open>{v}\<close> renders.\<close>

fun py_str :: "pyval \<Rightarrow> string" where
  "py_str VNone = ''None''"
| "py_str (VBool b) = (if b then ''True'' else ''False'')"
| "py_str (VInt i) = str_of_int i"
| "py_str (VStr s) = s"

text \<open>
  \<open>str.lower()\<close> on the code points below 256, which is what a \<open>char\<close> holds: the
  letters A to Z and the Latin-1 capitals U+00C0 to U+00DE (the multiplication sign U+00D7
  apart) move up by 32, every other character stays.
\<close>

definition lower_char :: "char \<Rightarrow> char" where
  "lower_char c =
     (let n = (of_char c :: nat) in
      if (65 \<le> n \<and> n \<le> 90) \<or> (192 \<le> n \<and> n \<le> 222 \<and> n \<noteq> 215)
      then char_of (n + 32) else c)"

definition lower :: "string \<Rightarrow> string" where
  "lower s = map lower_char s"

text \<open>\<open>word in text\<close> on strings: \<open>word\<close> occurs in \<open>text\<close> as a contiguous run.\<close>

primrec str_in :: "string \<Rightarrow> string \<Rightarrow> bool" where
  "str_in word [] = (word = [])"
| "str_in word (c # cs) = (prefix word (c # cs) \<or> str_in word cs)"

text \<open>\<open>any(word in text for word in words)\<close>.\<close>

definition contains_any :: "string \<Rightarrow> string list \<Rightarrow> bool" where
  "contains_any text words = list_ex (\<lambda>word. str_in word text) words"

section \<open>Data model (models.py)\<close>

datatype InputType = SPEECH | DTMF | TEXT

datatype CallStatus = ACTIVE | COMPLETED | FAILED | TRANSFERRED

text \<open>A \<open>datetime\<close> is a point on an integer time line, counted in microseconds (the
  resolution of Python's \<open>datetime\<close>); a \<open>timedelta\<close> is a difference of two such
  points.\<close>

type_synonym datetime = int
type_synonym timedelta = int

record Interaction =
  timestamp :: datetime
  speaker :: string
  message :: string
  input_type :: "InputType option"

record CallSession =
  call_id :: string
  caller_number :: string
  start_time :: datetime
  end_time :: "datetime option"
  status :: CallStatus
  interactions :: "Interaction list"
  context' :: pydict
  current_intent :: "string option"
  booking_data :: "pydict option"
  customer_id :: "string option"

section \<open>The mock dialogue policy (ai\_connector.py, \_mock\_ai\_response)\<close>

text \<open>
  The exceptions the modelled functions can raise. \<open>UnboundLocalError\<close> is what Python
  raises when a local variable is read on a path that never assigned it;
  \<open>ValidationError\<close> is what constructing a pydantic model raises.
\<close>

datatype error = UnboundLocalError | ValidationError

text \<open>The dictionary the policy returns, one field per key.\<close>

record AIResult =
  res_call_id :: string
  res_message :: string
  res_intent :: string
  res_action :: "string option"
  res_confidence :: rat
  res_parameters :: pydict

text \<open>The keyword lists of the six top-level branches, in the order the code tests them.\<close>

definition booking_keywords :: "string list" where
  "booking_keywords = [''book'', ''booking'', ''reserve'', ''ticket'']"

definition status_keywords :: "string list" where
  "status_keywords = [''status'', ''check'', ''flight status'']"

definition cancel_keywords :: "string list" where
  "cancel_keywords = [''cancel'', ''cancellation'']"

definition domestic_keywords :: "string list" where
  "domestic_keywords = [''domestic'']"

definition international_keywords :: "string list" where
  "international_keywords = [''international'']"

definition agent_keywords :: "string list" where
  "agent_keywords = [''agent'', ''representative'', ''human'']"

text \<open>The reply texts, as the code spells them.\<close>

definition msg_book :: string where
  "msg_book = ''I can help you book a flight. Are you looking for a domestic or international flight?''"

definition msg_status :: string where
  "msg_status = ''I can check your flight status. Please provide your flight number.''"

definition msg_cancel :: string where
  "msg_cancel = ''I can help you cancel your booking. Please provide your booking ID.''"

definition msg_domestic :: string where
  "msg_domestic = ''Great! Where would you like to fly from?''"

definition msg_international :: string where
  "msg_international = ''Perfect! Which city will you be departing from?''"

definition msg_agent :: string where
  "msg_agent = ''I'' @ [CHR 0x27] @ ''ll connect you with an agent. Please hold.''"

definition msg_ask_destination :: string where
  "msg_ask_destination = ''Great! And where would you like to fly to?''"

definition msg_ask_date :: string where
  "msg_ask_date = ''When would you like to travel? Please provide the date.''"

definition msg_ask_name :: string where
  "msg_ask_name = ''May I have your full name for the booking?''"

definition msg_ask_contact :: string where
  "msg_ask_contact = ''And your contact number?''"

definition msg_rephrase :: string where
  "msg_rephrase = ''I didn'' @ [CHR 0x27] @ ''t quite understand. Could you rephrase that?''"

definition msg_unknown :: string where
  "msg_unknown = ''I didn'' @ [CHR 0x27] @ ''t quite understand. You can say ''
     @ [CHR 0x27] @ ''book a flight'' @ [CHR 0x27] @ '', ''
     @ [CHR 0x27] @ ''check flight status'' @ [CHR 0x27] @ '', or ''
     @ [CHR 0x27] @ ''cancel booking'' @ [CHR 0x27] @ ''.''"

text \<open>\<open>booking[key]\<close> inside the f-string; the key is present wherever the code reads it.\<close>

definition item_str :: "pydict \<Rightarrow> string \<Rightarrow> string" where
  "item_str booking key = (case map_of booking key of Some v \<Rightarrow> py_str v | None \<Rightarrow> [])"

definition msg_confirm :: "pydict \<Rightarrow> string" where
  "msg_confirm booking =
     ''Perfect! Let me confirm: Flying from '' @ item_str booking ''origin''
     @ '' to '' @ item_str booking ''destination''
     @ '' on '' @ item_str booking ''date''
     @ '' for '' @ item_str booking ''passenger_name''
     @ ''. Should I proceed with the booking?''"

text \<open>
  The local variables \<open>intent\<close>, \<open>message\<close> and \<open>action\<close> after the if-chain.
  \<open>message\<close> and \<open>action\<close> are assigned on every path; \<open>intent\<close> is not, so it is an
  option: \<open>None\<close> means the name is still unbound. (\<open>action\<close> is an option because
  the code assigns Python's \<open>None\<close> to it.)
\<close>

record locals =
  l_intent :: "string option"
  l_message :: string
  l_action :: "string option"

text \<open>A dictionary is truthy when it is neither \<open>None\<close> nor empty.\<close>

fun truthy :: "pydict option \<Rightarrow> bool" where
  "truthy None = False"
| "truthy (Some d) = (d \<noteq> [])"

text \<open>
  The \<open>else\<close> branch of the if-chain (``Handle context-based responses''). \<open>booking\<close>
  is the session's own dictionary, so an assignment \<open>booking[key] = user_input\<close> is
  an update of the session.
\<close>

definition context_response :: "string \<Rightarrow> CallSession \<Rightarrow> CallSession \<times> locals" where
  "context_response user_input session_context =
     (if current_intent session_context = Some ''book_flight''
         \<and> truthy (booking_data session_context)
      then
        (let booking = the (booking_data session_context);
             assign = (\<lambda>key. AList.update key (VStr user_input) booking)
         in
         if map_of booking ''origin'' = None then
           (session_context\<lparr>booking_data := Some (assign ''origin'')\<rparr>,
            \<lparr>l_intent = None, l_message = msg_ask_destination,
             l_action = Some ''collect_destination''\<rparr>)
         else if map_of booking ''destination'' = None then
           (session_context\<lparr>booking_data := Some (assign ''destination'')\<rparr>,
            \<lparr>l_intent = None, l_message = msg_ask_date,
             l_action = Some ''collect_date''\<rparr>)
         else if map_of booking ''date'' = None then
           (session_context\<lparr>booking_data := Some (assign ''date'')\<rparr>,
            \<lparr>l_intent = None, l_message = msg_ask_name,
             l_action = Some ''collect_passenger_name''\<rparr>)
         else if map_of booking ''passenger_name'' = None then
           (session_context\<lparr>booking_data := Some (assign ''passenger_name'')\<rparr>,
            \<lparr>l_intent = None, l_message = msg_ask_contact,
             l_action = Some ''collect_contact''\<rparr>)
         else if map_of booking ''contact'' = None then
           (session_context\<lparr>booking_data := Some (assign ''contact'')\<rparr>,
            \<lparr>l_intent = None, l_message = msg_confirm (assign ''contact''),
             l_action = Some ''confirm_booking''\<rparr>)
         else
           (session_context,
            \<lparr>l_intent = Some ''unknown'', l_message = msg_rephrase, l_action = None\<rparr>))
      else
        (session_context,
         \<lparr>l_intent = Some ''unknown'', l_message = msg_unknown, l_action = None\<rparr>))"

text \<open>The if-chain: six keyword tests on the lower-cased input, then the context branch.\<close>

definition decide :: "string \<Rightarrow> CallSession \<Rightarrow> CallSession \<times> locals" where
  "decide user_input session_context =
     (let user_input_lower = lower user_input in
      if contains_any user_input_lower booking_keywords then
        (session_context,
         \<lparr>l_intent = Some ''book_flight'', l_message = msg_book,
          l_action = Some ''collect_booking_type''\<rparr>)
      else if contains_any user_input_lower status_keywords then
        (session_context,
         \<lparr>l_intent = Some ''check_status'', l_message = msg_status,
          l_action = Some ''collect_flight_id''\<rparr>)
      else if contains_any user_input_lower cancel_keywords then
        (session_context,
         \<lparr>l_intent = Some ''cancel_booking'', l_message = msg_cancel,
          l_action = Some ''collect_booking_id''\<rparr>)
      else if contains_any user_input_lower domestic_keywords then
        (session_context,
         \<lparr>l_intent = Some ''domestic_flight'', l_message = msg_domestic,
          l_action = Some ''collect_origin''\<rparr>)
      else if contains_any user_input_lower international_keywords then
        (session_context,
         \<lparr>l_intent = Some ''international_flight'', l_message = msg_international,
          l_action = Some ''collect_origin''\<rparr>)
      else if contains_any user_input_lower agent_keywords then
        (session_context,
         \<lparr>l_intent = Some ''speak_to_agent'', l_message = msg_agent,
          l_action = Some ''transfer_agent''\<rparr>)
      else context_response user_input session_context)"

text \<open>
  The \<open>return\<close> statement builds the result dictionary from the session and the locals.
  Reading \<open>intent\<close> while it is unbound raises \<open>UnboundLocalError\<close>; the updates made
  to the session before that stay.
\<close>

definition build_result :: "CallSession \<Rightarrow> locals \<Rightarrow> error + AIResult" where
  "build_result session_context ls =
     (case l_intent ls of
        None \<Rightarrow> Inl UnboundLocalError
      | Some intent \<Rightarrow>
          Inr \<lparr>res_call_id = call_id session_context,
               res_message = l_message ls,
               res_intent = intent,
               res_action = l_action ls,
               res_confidence = 85 / 100,
               res_parameters = []\<rparr>)"

definition mock_ai_response :: "string \<Rightarrow> CallSession \<Rightarrow> CallSession \<times> (error + AIResult)" where
  "mock_ai_response user_input session_context =
     (case decide user_input session_context of
        (session', ls) \<Rightarrow> (session', build_result session' ls))"

section \<open>The session store (session\_manager.py)\<close>

text \<open>
  Sessions are objects with identity: the dictionary \<open>self.sessions\<close> maps a call id
  to a reference, and callers keep the references they were handed. So the store is a
  heap of session objects (\<open>objects\<close>), the dictionary of references (\<open>sessions\<close>),
  the next unused reference, and the timeout. Ending a session updates the object and
  deletes the dictionary entry; the object stays reachable through the references
  given out before.
\<close>

type_synonym ref = nat

record SessionManager =
  sessions :: "(string \<times> ref) list"
  objects :: "ref \<Rightarrow> CallSession"
  next_ref :: ref
  session_timeout :: timedelta

text \<open>
  \<open>datetime.now()\<close> reads the environment. An operation takes the readings it will make
  as a function: \<open>clock k\<close> is the value of the \<open>k\<close>-th call of \<open>datetime.now()\<close>
  made during the operation, counted from 0.
\<close>

type_synonym clock = "nat \<Rightarrow> datetime"

definition later :: "nat \<Rightarrow> clock \<Rightarrow> clock" where
  "later n clock = (\<lambda>k. clock (n + k))"

definition create_session ::
    "clock \<Rightarrow> string \<Rightarrow> string \<Rightarrow> SessionManager \<Rightarrow> ref \<times> SessionManager" where
  "create_session clock cid caller mgr =
     (case map_of (sessions mgr) cid of
        Some r \<Rightarrow> (r, mgr)
      | None \<Rightarrow>
          (let r = next_ref mgr;
               session = \<lparr>call_id = cid, caller_number = caller, start_time = clock 0,
                          end_time = None, status = ACTIVE, interactions = [],
                          context' = [], current_intent = None, booking_data = None,
                          customer_id = None\<rparr>
           in (r, mgr\<lparr>sessions := AList.update cid r (sessions mgr),
                      objects := (objects mgr)(r := session),
                      next_ref := Suc r\<rparr>)))"

definition is_session_expired :: "clock \<Rightarrow> timedelta \<Rightarrow> CallSession \<Rightarrow> bool" where
  "is_session_expired clock timeout session =
     (let time_diff =
            (if interactions session = [] then clock 0 - start_time session
             else clock 0 - timestamp (last (interactions session)))
      in time_diff > timeout)"

definition end_session ::
    "clock \<Rightarrow> string \<Rightarrow> CallStatus \<Rightarrow> SessionManager \<Rightarrow> bool \<times> SessionManager" where
  "end_session clock cid final_status mgr =
     (case map_of (sessions mgr) cid of
        None \<Rightarrow> (False, mgr)
      | Some r \<Rightarrow>
          (True,
           mgr\<lparr>objects := (objects mgr)
                  (r := (objects mgr r)\<lparr>end_time := Some (clock 0), status := final_status\<rparr>),
               sessions := AList.delete cid (sessions mgr)\<rparr>))"

text \<open>
  \<open>get_session\<close> reads the clock once for the expiry test and, when the session has
  expired, once more inside \<open>end_session\<close>, which it calls without a status: the
  parameter's default, \<open>CallStatus.COMPLETED\<close>, applies. (A session object is always
  truthy, so \<open>if session\<close> only tests that the id was found.)
\<close>

definition get_session ::
    "clock \<Rightarrow> string \<Rightarrow> SessionManager \<Rightarrow> ref option \<times> SessionManager" where
  "get_session clock cid mgr =
     (case map_of (sessions mgr) cid of
        None \<Rightarrow> (None, mgr)
      | Some r \<Rightarrow>
          if is_session_expired clock (session_timeout mgr) (objects mgr r)
          then (None, snd (end_session (later 1 clock) cid COMPLETED mgr))
          else (Some r, mgr))"

text \<open>The mutators look the session up with \<open>get_session\<close> first. When that
  returns a session it has read the clock once, so a mutator's own reading is \<open>clock 1\<close>.\<close>

definition set_intent ::
    "clock \<Rightarrow> string \<Rightarrow> string \<Rightarrow> SessionManager \<Rightarrow> bool \<times> SessionManager" where
  "set_intent clock cid intent mgr =
     (case get_session clock cid mgr of
        (None, mgr') \<Rightarrow> (False, mgr')
      | (Some r, mgr') \<Rightarrow>
          (True, mgr'\<lparr>objects := (objects mgr')
                         (r := (objects mgr' r)\<lparr>current_intent := Some intent\<rparr>)\<rparr>))"

text \<open>\<open>d.update(other)\<close>: the items of \<open>other\<close> are assigned in their order.\<close>

definition dict_update :: "pydict \<Rightarrow> pydict \<Rightarrow> pydict" where
  "dict_update d other = fold (\<lambda>(k, v). AList.update k v) other d"

definition store_booking_data ::
    "clock \<Rightarrow> string \<Rightarrow> pydict \<Rightarrow> SessionManager \<Rightarrow> bool \<times> SessionManager" where
  "store_booking_data clock cid new_data mgr =
     (case get_session clock cid mgr of
        (None, mgr') \<Rightarrow> (False, mgr')
      | (Some r, mgr') \<Rightarrow>
          (let session = objects mgr' r;
               current = (if truthy (booking_data session) then the (booking_data session)
                          else [])
           in (True, mgr'\<lparr>objects := (objects mgr')
                  (r := session\<lparr>booking_data := Some (dict_update current new_data)\<rparr>)\<rparr>)))"

definition add_interaction ::
    "clock \<Rightarrow> string \<Rightarrow> string \<Rightarrow> string \<Rightarrow> InputType option \<Rightarrow> SessionManager
      \<Rightarrow> bool \<times> SessionManager" where
  "add_interaction clock cid who text kind mgr =
     (case get_session clock cid mgr of
        (None, mgr') \<Rightarrow> (False, mgr')
      | (Some r, mgr') \<Rightarrow>
          (let interaction = \<lparr>timestamp = clock 1, speaker = who,
                              message = text, input_type = kind\<rparr>;
               session = objects mgr' r
           in (True, mgr'\<lparr>objects := (objects mgr')
                  (r := session\<lparr>interactions := interactions session @ [interaction]\<rparr>)\<rparr>)))"

text \<open>
  \<open>cleanup_expired_sessions\<close>: one clock reading per stored session for the expiry
  test, in dictionary order, then one per expired id inside \<open>end_session\<close>, here
  called with \<open>status=CallStatus.FAILED\<close>.
\<close>

fun expired_ids :: "clock \<Rightarrow> SessionManager \<Rightarrow> (string \<times> ref) list \<Rightarrow> string list" where
  "expired_ids clock mgr [] = []"
| "expired_ids clock mgr ((cid, r) # rest) =
     (if is_session_expired clock (session_timeout mgr) (objects mgr r)
      then cid # expired_ids (later 1 clock) mgr rest
      else expired_ids (later 1 clock) mgr rest)"

fun end_all :: "clock \<Rightarrow> string list \<Rightarrow> SessionManager \<Rightarrow> SessionManager" where
  "end_all clock [] mgr = mgr"
| "end_all clock (cid # cids) mgr =
     (case end_session clock cid FAILED mgr of
        (found, mgr') \<Rightarrow> end_all (if found then later 1 clock else clock) cids mgr')"

definition cleanup_expired_sessions :: "clock \<Rightarrow> SessionManager \<Rightarrow> nat \<times> SessionManager" where
  "cleanup_expired_sessions clock mgr =
     (let ids = expired_ids clock mgr (sessions mgr) in
      (length ids, end_all (later (length (sessions mgr)) clock) ids mgr))"

text \<open>A fresh \<open>SessionManager(session_timeout_minutes)\<close>; \<open>timedelta(minutes=m)\<close> is
  \<open>60000000 * m\<close> microseconds. No object is allocated yet, so what the heap holds
  is immaterial.\<close>

definition blank_session :: CallSession where
  "blank_session = \<lparr>call_id = [], caller_number = [], start_time = 0, end_time = None,
     status = ACTIVE, interactions = [], context' = [], current_intent = None,
     booking_data = None, customer_id = None\<rparr>"

definition new_manager :: "int \<Rightarrow> SessionManager" where
  "new_manager session_timeout_minutes =
     \<lparr>sessions = [], objects = (\<lambda>r. blank_session), next_ref = 0,
      session_timeout = 60000000 * session_timeout_minutes\<rparr>"

section \<open>The transaction processors (main.py)\<close>

text \<open>
  \<open>FlightBooking(**data)\<close> validates the payload. A required field that is missing is an
  error; a field that is present goes through pydantic's conversion to the field's type,
  which depends on the library's version for values of another type, so the two
  conversions are parameters: \<open>as_str v\<close> and \<open>as_int v\<close> are the converted value, or
  \<open>None\<close> where pydantic rejects \<open>v\<close>. Keys that name no field are ignored.
  The library checks every field and raises one \<open>ValidationError\<close> if any check
  failed; the error carries no data here, so the fields are checked one after the other.
\<close>

record FlightBooking =
  origin :: string
  destination :: string
  travel_date :: string
  passenger_name :: string
  passenger_contact :: string
  booking_type :: string
  num_passengers :: int

record conversions =
  as_str :: "pyval \<Rightarrow> string option"
  as_int :: "pyval \<Rightarrow> int option"

text \<open>A required \<open>str\<close> field with optional length bounds.\<close>

definition str_field ::
    "conversions \<Rightarrow> pydict \<Rightarrow> string \<Rightarrow> nat \<Rightarrow> nat option \<Rightarrow> string option" where
  "str_field cv data key min_length max_length =
     (case map_of data key of
        None \<Rightarrow> None
      | Some v \<Rightarrow>
          (case as_str cv v of
             None \<Rightarrow> None
           | Some s \<Rightarrow>
               if min_length \<le> length s
                  \<and> (case max_length of None \<Rightarrow> True | Some m \<Rightarrow> length s \<le> m)
               then Some s else None))"

text \<open>\<open>num_passengers: int = Field(1, ge=1, le=9)\<close>: the default is used when the key
  is missing.\<close>

definition num_passengers_field :: "conversions \<Rightarrow> pydict \<Rightarrow> int option" where
  "num_passengers_field cv data =
     (case map_of data ''num_passengers'' of
        None \<Rightarrow> Some 1
      | Some v \<Rightarrow>
          (case as_int cv v of
             None \<Rightarrow> None
           | Some n \<Rightarrow> if 1 \<le> n \<and> n \<le> 9 then Some n else None))"

definition make_FlightBooking :: "conversions \<Rightarrow> pydict \<Rightarrow> error + FlightBooking" where
  "make_FlightBooking cv data =
     (case str_field cv data ''origin'' 3 (Some 50) of
        None \<Rightarrow> Inl ValidationError
      | Some a \<Rightarrow>
     (case str_field cv data ''destination'' 3 (Some 50) of
        None \<Rightarrow> Inl ValidationError
      | Some b \<Rightarrow>
     (case str_field cv data ''travel_date'' 0 None of
        None \<Rightarrow> Inl ValidationError
      | Some c \<Rightarrow>
     (case str_field cv data ''passenger_name'' 0 None of
        None \<Rightarrow> Inl ValidationError
      | Some d \<Rightarrow>
     (case str_field cv data ''passenger_contact'' 0 None of
        None \<Rightarrow> Inl ValidationError
      | Some e \<Rightarrow>
     (case str_field cv data ''booking_type'' 0 None of
        None \<Rightarrow> Inl ValidationError
      | Some f \<Rightarrow>
     (case num_passengers_field cv data of
        None \<Rightarrow> Inl ValidationError
      | Some n \<Rightarrow>
          Inr \<lparr>origin = a, destination = b, travel_date = c, passenger_name = d,
               passenger_contact = e, booking_type = f, num_passengers = n\<rparr>)))))))"

record BookingResult =
  bk_success :: bool
  bk_booking_id :: string
  bk_message :: string
  bk_details :: FlightBooking

text \<open>\<open>stamp\<close> is \<open>datetime.now().strftime('%Y%m%d%H%M%S')\<close>, read after the
  validation.\<close>

definition process_flight_booking ::
    "conversions \<Rightarrow> string \<Rightarrow> string \<Rightarrow> pydict \<Rightarrow> error + BookingResult" where
  "process_flight_booking cv stamp cid data =
     (case make_FlightBooking cv data of
        Inl e \<Rightarrow> Inl e
      | Inr booking \<Rightarrow>
          Inr \<lparr>bk_success = True,
               bk_booking_id = ''BK'' @ stamp,
               bk_message = ''Booking confirmed from '' @ origin booking
                            @ '' to '' @ destination booking,
               bk_details = booking\<rparr>)"

record CancellationResult =
  cx_success :: bool
  cx_booking_id :: pyval
  cx_message :: string

text \<open>\<open>data.get(key)\<close>: the value, or Python's \<open>None\<close> for a missing key.\<close>

definition dict_get :: "pydict \<Rightarrow> string \<Rightarrow> pyval" where
  "dict_get data key = (case map_of data key of None \<Rightarrow> VNone | Some v \<Rightarrow> v)"

definition process_cancellation :: "string \<Rightarrow> pydict \<Rightarrow> CancellationResult" where
  "process_cancellation cid data =
     (let booking_id = dict_get data ''booking_id'' in
      \<lparr>cx_success = True, cx_booking_id = booking_id,
       cx_message = ''Booking cancelled successfully''\<rparr>)"

text \<open>One instance of the conversions: a value already of the field's type is taken
  as it is (every version of the library does that), any other value is rejected.\<close>

definition exact :: conversions where
  "exact = \<lparr>as_str = (\<lambda>v. case v of VStr s \<Rightarrow> Some s | _ \<Rightarrow> None),
            as_int = (\<lambda>v. case v of VInt n \<Rightarrow> Some n | _ \<Rightarrow> None)\<rparr>"

section \<open>Notions used in the statements\<close>

text \<open>Some top-level keyword occurs in the (lower-cased) text.\<close>

definition keyword_matched :: "string \<Rightarrow> bool" where
  "keyword_matched text =
     (contains_any text booking_keywords \<or> contains_any text status_keywords
      \<or> contains_any text cancel_keywords \<or> contains_any text domestic_keywords
      \<or> contains_any text international_keywords \<or> contains_any text agent_keywords)"

text \<open>The result dictionary of a keyword branch with the given intent, reply and action.\<close>

definition keyword_result :: "CallSession \<Rightarrow> string \<Rightarrow> string \<Rightarrow> string \<Rightarrow> AIResult" where
  "keyword_result session_context intent reply action =
     \<lparr>res_call_id = call_id session_context, res_message = reply, res_intent = intent,
      res_action = Some action, res_confidence = 85 / 100, res_parameters = []\<rparr>"

text \<open>The five booking slots in the order the context branch tests them.\<close>

definition slot_fields :: "string list" where
  "slot_fields = [''origin'', ''destination'', ''date'', ''passenger_name'', ''contact'']"

definition first_missing :: "pydict \<Rightarrow> string option" where
  "first_missing booking = find (\<lambda>key. map_of booking key = None) slot_fields"

text \<open>The fields of \<open>FlightBooking\<close> declared without a default.\<close>

definition required_fields :: "string list" where
  "required_fields = [''origin'', ''destination'', ''travel_date'', ''passenger_name'',
     ''passenger_contact'', ''booking_type'']"

text \<open>Concrete inputs: a session of call \<open>c1\<close> in the booking flow with the given
  booking data, a fully filled booking dictionary, and the payload of the repository's
  manual booking scenario.\<close>

definition booking_session :: "pydict option \<Rightarrow> CallSession" where
  "booking_session booking =
     \<lparr>call_id = ''c1'', caller_number = ''+919876543210'', start_time = 0, end_time = None,
      status = ACTIVE, interactions = [], context' = [],
      current_intent = Some ''book_flight'', booking_data = booking, customer_id = None\<rparr>"

definition full_booking :: pydict where
  "full_booking = [(''origin'', VStr ''Mumbai''), (''destination'', VStr ''Delhi''),
     (''date'', VStr ''2025-11-15''), (''passenger_name'', VStr ''John Doe''),
     (''contact'', VStr ''+919876543210'')]"

definition manual_payload :: pydict where
  "manual_payload = [(''origin'', VStr ''Mumbai''), (''destination'', VStr ''Delhi''),
     (''travel_date'', VStr ''2025-11-15''), (''passenger_name'', VStr ''John Doe''),
     (''passenger_contact'', VStr ''+919876543210''), (''booking_type'', VStr ''domestic''),
     (''num_passengers'', VInt 1)]"

text \<open>A store with a 30 minute timeout (1800000000 microseconds) holding one session,
  created at time 0.\<close>

definition one_session_store :: SessionManager where
  "one_session_store =
     snd (create_session (\<lambda>k. 0) ''c1'' ''+919876543210'' (new_manager 30))"

text \<open>The store of the repository's test \<open>test_context_aware_responses\<close> at the moment
  it sends the utterance: the session created, its intent set to \<open>book_flight\<close>, and an
  empty dictionary stored as booking data.\<close>

definition test_context_store :: SessionManager where
  "test_context_store =
     snd (store_booking_data (\<lambda>k. 0) ''c1'' []
       (snd (set_intent (\<lambda>k. 0) ''c1'' ''book_flight'' one_session_store)))"

text \<open>The confidence a caller reads from the policy's outcome, if a result is returned.\<close>

definition confidence_of :: "error + AIResult \<Rightarrow> rat option" where
  "confidence_of outcome =
     (case outcome of Inl e \<Rightarrow> None | Inr result \<Rightarrow> Some (res_confidence result))"

section \<open>Properties\<close>

subsection \<open>Auxiliary facts\<close>

text \<open>\<open>str_in\<close> is the contiguous-sublist relation of the library.\<close>

lemma str_in_sublist: "str_in w t \<longleftrightarrow> sublist w t"
  by (induction t) (auto simp: sublist_Cons_right)

text \<open>Assigning a key that is absent appends the item.\<close>

lemma update_absent: "map_of al k = None \<Longrightarrow> AList.update k v al = al @ [(k, v)]"
  by (induction al) (auto split: if_splits)

lemma decide_keyword:
  "keyword_matched (lower u) \<Longrightarrow> fst (decide u s) = s \<and> l_intent (snd (decide u s)) \<noteq> None"
  by (auto simp: keyword_matched_def decide_def Let_def)

lemma decide_no_keyword: "\<not> keyword_matched (lower u) \<Longrightarrow> decide u s = context_response u s"
  by (simp add: keyword_matched_def decide_def Let_def)

text \<open>The two components of the policy's outcome.\<close>

lemma mock_fst: "fst (mock_ai_response u s) = fst (decide u s)"
  by (simp add: mock_ai_response_def split: prod.splits)

lemma mock_snd: "snd (mock_ai_response u s) = build_result (fst (decide u s)) (snd (decide u s))"
  by (simp add: mock_ai_response_def split: prod.splits)

lemma build_result_error: "build_result s ls = Inl e \<Longrightarrow> e = UnboundLocalError"
  by (auto simp: build_result_def split: option.splits)

text \<open>The first missing slot, case by case.\<close>

lemma first_missing_cases:
  assumes "first_missing b = Some k"
  obtains
    (origin) "k = ''origin''" "map_of b ''origin'' = None"
  | (destination) "k = ''destination''" "map_of b ''origin'' \<noteq> None"
      "map_of b ''destination'' = None"
  | (date) "k = ''date''" "map_of b ''origin'' \<noteq> None" "map_of b ''destination'' \<noteq> None"
      "map_of b ''date'' = None"
  | (passenger_name) "k = ''passenger_name''" "map_of b ''origin'' \<noteq> None"
      "map_of b ''destination'' \<noteq> None" "map_of b ''date'' \<noteq> None"
      "map_of b ''passenger_name'' = None"
  | (contact) "k = ''contact''" "map_of b ''origin'' \<noteq> None"
      "map_of b ''destination'' \<noteq> None" "map_of b ''date'' \<noteq> None"
      "map_of b ''passenger_name'' \<noteq> None" "map_of b ''contact'' = None"
  using assms unfolding first_missing_def slot_fields_def
  by (simp split: if_splits)

lemma first_missing_None:
  "first_missing b = None \<longleftrightarrow>
     map_of b ''origin'' \<noteq> None \<and> map_of b ''destination'' \<noteq> None
     \<and> map_of b ''date'' \<noteq> None \<and> map_of b ''passenger_name'' \<noteq> None
     \<and> map_of b ''contact'' \<noteq> None"
  unfolding first_missing_def slot_fields_def by (simp add: find_None_iff)

lemma first_missing_absent: "first_missing b = Some k \<Longrightarrow> map_of b k = None"
  by (erule first_missing_cases) simp_all

lemma first_missing_slot: "first_missing b = Some k \<Longrightarrow> k \<in> set slot_fields"
  by (erule first_missing_cases) (simp_all add: slot_fields_def)

text \<open>The three outcomes of the context branch: the guard fails, every slot is present,
  or the first missing slot is assigned and \<open>intent\<close> stays unbound.\<close>

lemma context_response_other:
  assumes "\<not> (current_intent s = Some ''book_flight'' \<and> truthy (booking_data s))"
  shows "context_response u s =
           (s, \<lparr>l_intent = Some ''unknown'', l_message = msg_unknown, l_action = None\<rparr>)"
  unfolding context_response_def using assms by (rule if_not_P)

lemma context_response_full:
  assumes "current_intent s = Some ''book_flight''" and "booking_data s = Some b"
    and "b \<noteq> []" and "first_missing b = None"
  shows "context_response u s =
           (s, \<lparr>l_intent = Some ''unknown'', l_message = msg_rephrase, l_action = None\<rparr>)"
  using assms by (simp add: context_response_def first_missing_None)

lemma context_response_fill:
  assumes "current_intent s = Some ''book_flight''" and "booking_data s = Some b"
    and "b \<noteq> []" and "first_missing b = Some k"
  shows "fst (context_response u s) = s\<lparr>booking_data := Some (b @ [(k, VStr u)])\<rparr>
         \<and> l_intent (snd (context_response u s)) = None"
  using assms(4)
proof (cases rule: first_missing_cases)
  case origin
  with assms(1-3) show ?thesis by (simp add: context_response_def update_absent)
next
  case destination
  with assms(1-3) show ?thesis by (simp add: context_response_def update_absent)
next
  case date
  with assms(1-3) show ?thesis by (simp add: context_response_def update_absent)
next
  case passenger_name
  with assms(1-3) show ?thesis by (simp add: context_response_def update_absent)
next
  case contact
  with assms(1-3) show ?thesis by (simp add: context_response_def update_absent)
qed


text \<open>The same for the whole policy.\<close>

lemma mock_keyword:
  "keyword_matched (lower u) \<Longrightarrow>
     fst (mock_ai_response u s) = s \<and> (\<exists>r. snd (mock_ai_response u s) = Inr r)"
  using decide_keyword [of u s]
  by (auto simp: mock_fst mock_snd build_result_def split: option.splits)

lemma mock_other:
  assumes "\<not> keyword_matched (lower u)"
    and "\<not> (current_intent s = Some ''book_flight'' \<and> truthy (booking_data s))"
  shows "mock_ai_response u s =
           (s, Inr \<lparr>res_call_id = call_id s, res_message = msg_unknown,
                    res_intent = ''unknown'', res_action = None,
                    res_confidence = 85 / 100, res_parameters = []\<rparr>)"
  using assms
  by (simp add: mock_ai_response_def decide_no_keyword context_response_other build_result_def)

lemma mock_full:
  assumes "\<not> keyword_matched (lower u)" and "current_intent s = Some ''book_flight''"
    and "booking_data s = Some b" and "b \<noteq> []" and "first_missing b = None"
  shows "mock_ai_response u s =
           (s, Inr \<lparr>res_call_id = call_id s, res_message = msg_rephrase,
                    res_intent = ''unknown'', res_action = None,
                    res_confidence = 85 / 100, res_parameters = []\<rparr>)"
  using assms
  by (simp add: mock_ai_response_def decide_no_keyword context_response_full build_result_def)

lemma slot_filling_step:
  assumes "\<not> keyword_matched (lower u)" and "current_intent s = Some ''book_flight''"
    and "booking_data s = Some b" and "b \<noteq> []" and "first_missing b = Some k"
  shows "mock_ai_response u s =
           (s\<lparr>booking_data := Some (b @ [(k, VStr u)])\<rparr>, Inl UnboundLocalError)"
proof -
  from context_response_fill [OF assms(2-5), of u]
  have "fst (context_response u s) = s\<lparr>booking_data := Some (b @ [(k, VStr u)])\<rparr>"
    and "l_intent (snd (context_response u s)) = None" by simp_all
  then show ?thesis
    using assms(1)
    by (simp add: prod_eq_iff mock_fst mock_snd decide_no_keyword build_result_def)
qed

text \<open>The policy raises exactly when a slot is assigned.\<close>

lemma mock_ai_response_raises_iff:
  "snd (mock_ai_response u s) = Inl UnboundLocalError \<longleftrightarrow>
     \<not> keyword_matched (lower u) \<and> current_intent s = Some ''book_flight''
     \<and> truthy (booking_data s) \<and> first_missing (the (booking_data s)) \<noteq> None"
proof (cases "keyword_matched (lower u)")
  case True
  with mock_keyword [of u s] show ?thesis by auto
next
  case nk: False
  show ?thesis
  proof (cases "current_intent s = Some ''book_flight'' \<and> truthy (booking_data s)")
    case False
    with nk mock_other [of u s] show ?thesis by auto
  next
    case True
    then obtain b where b: "booking_data s = Some b" "b \<noteq> []"
      by (cases "booking_data s") auto
    show ?thesis
    proof (cases "first_missing b")
      case None
      with nk True b mock_full [of u s b] show ?thesis by simp
    next
      case (Some k)
      with nk True b slot_filling_step [of u s b k] show ?thesis by simp
    qed
  qed
qed

text \<open>The store operations on a call id that is present, and on one that is not.\<close>

lemma create_session_present:
  "map_of (sessions mgr) cid = Some r \<Longrightarrow> create_session clock cid caller mgr = (r, mgr)"
  by (simp add: create_session_def)

lemma create_session_absent:
  assumes "map_of (sessions mgr) cid = None"
  shows "fst (create_session clock cid caller mgr) = next_ref mgr"
    and "map_of (sessions (snd (create_session clock cid caller mgr))) cid = Some (next_ref mgr)"
    and "start_time (objects (snd (create_session clock cid caller mgr)) (next_ref mgr)) = clock 0"
    and "status (objects (snd (create_session clock cid caller mgr)) (next_ref mgr)) = ACTIVE"
  using assms by (simp_all add: create_session_def Let_def update_conv')

lemma create_session_twice:
  "create_session clock2 cid caller2 (snd (create_session clock1 cid caller1 mgr)) =
     create_session clock1 cid caller1 mgr"
proof (cases "map_of (sessions mgr) cid")
  case None
  from create_session_absent(1,2) [OF None, of clock1 caller1]
  show ?thesis by (simp add: create_session_present prod_eq_iff)
next
  case (Some r)
  then show ?thesis by (simp add: create_session_present)
qed

lemma end_session_present:
  assumes "map_of (sessions mgr) cid = Some r"
  shows "fst (end_session clock cid final mgr) = True"
    and "map_of (sessions (snd (end_session clock cid final mgr))) cid = None"
    and "objects (snd (end_session clock cid final mgr)) r =
           (objects mgr r)\<lparr>end_time := Some (clock 0), status := final\<rparr>"
  using assms by (simp_all add: end_session_def delete_conv')

lemma get_session_expired:
  assumes "map_of (sessions mgr) cid = Some r"
    and "is_session_expired clock (session_timeout mgr) (objects mgr r)"
  shows "fst (get_session clock cid mgr) = None"
    and "map_of (sessions (snd (get_session clock cid mgr))) cid = None"
    and "objects (snd (get_session clock cid mgr)) r =
           (objects mgr r)\<lparr>end_time := Some (clock 1), status := COMPLETED\<rparr>"
  using assms end_session_present [OF assms(1), of "later 1 clock" COMPLETED]
  by (simp_all add: get_session_def later_def)

lemma get_session_live:
  assumes "map_of (sessions mgr) cid = Some r"
    and "\<not> is_session_expired clock (session_timeout mgr) (objects mgr r)"
  shows "get_session clock cid mgr = (Some r, mgr)"
  using assms by (simp add: get_session_def)

text \<open>Validation of a booking payload: a missing required field fails it; the payload
  of the manual scenario passes; the dictionary the dialogue collects, whose keys are
  \<open>date\<close> and \<open>contact\<close>, never passes.\<close>

lemma str_field_missing: "map_of data key = None \<Longrightarrow> str_field cv data key lo hi = None"
  by (simp add: str_field_def)

lemma make_FlightBooking_missing:
  assumes "key \<in> set required_fields" and "map_of data key = None"
  shows "make_FlightBooking cv data = Inl ValidationError"
proof -
  from assms(1) have "key = ''origin'' \<or> key = ''destination'' \<or> key = ''travel_date''
    \<or> key = ''passenger_name'' \<or> key = ''passenger_contact'' \<or> key = ''booking_type''"
    by (simp add: required_fields_def)
  then show ?thesis
  proof (elim disjE)
    assume "key = ''origin''"
    with assms(2) have "str_field cv data ''origin'' 3 (Some 50) = None"
      by (simp add: str_field_missing)
    then show ?thesis by (simp add: make_FlightBooking_def split: option.splits)
  next
    assume "key = ''destination''"
    with assms(2) have "str_field cv data ''destination'' 3 (Some 50) = None"
      by (simp add: str_field_missing)
    then show ?thesis by (simp add: make_FlightBooking_def split: option.splits)
  next
    assume "key = ''travel_date''"
    with assms(2) have "str_field cv data ''travel_date'' 0 None = None"
      by (simp add: str_field_missing)
    then show ?thesis by (simp add: make_FlightBooking_def split: option.splits)
  next
    assume "key = ''passenger_name''"
    with assms(2) have "str_field cv data ''passenger_name'' 0 None = None"
      by (simp add: str_field_missing)
    then show ?thesis by (simp add: make_FlightBooking_def split: option.splits)
  next
    assume "key = ''passenger_contact''"
    with assms(2) have "str_field cv data ''passenger_contact'' 0 None = None"
      by (simp add: str_field_missing)
    then show ?thesis by (simp add: make_FlightBooking_def split: option.splits)
  next
    assume "key = ''booking_type''"
    with assms(2) have "str_field cv data ''booking_type'' 0 None = None"
      by (simp add: str_field_missing)
    then show ?thesis by (simp add: make_FlightBooking_def split: option.splits)
  qed
qed

lemma manual_booking_succeeds:
  "process_flight_booking exact ''20251104093000'' ''c1'' manual_payload =
     Inr \<lparr>bk_success = True, bk_booking_id = ''BK20251104093000'',
          bk_message = ''Booking confirmed from Mumbai to Delhi'',
          bk_details = \<lparr>origin = ''Mumbai'', destination = ''Delhi'',
            travel_date = ''2025-11-15'', passenger_name = ''John Doe'',
            passenger_contact = ''+919876543210'', booking_type = ''domestic'',
            num_passengers = 1\<rparr>\<rparr>"
  by code_simp

lemma collected_booking_fails_validation:
  "process_flight_booking cv stamp cid full_booking = Inl ValidationError"
proof -
  have "map_of full_booking ''travel_date'' = None" by code_simp
  then have "make_FlightBooking cv full_booking = Inl ValidationError"
    by (rule make_FlightBooking_missing [rotated]) (simp add: required_fields_def)
  then show ?thesis by (simp add: process_flight_booking_def)
qed

subsection \<open>The keyword branches\<close>

text \<open>
  C4. The policy lower-cases the utterance and tests the keyword lists in the order
  booking, status, cancellation, domestic, international, agent transfer. The first list
  with a keyword occurring in the text decides: the result carries that branch's fixed
  intent, reply and action, whatever later lists also match, and the session is returned
  as it was.
\<close>

theorem keyword_priority:
  "(contains_any (lower u) booking_keywords \<longrightarrow>
      mock_ai_response u s =
        (s, Inr (keyword_result s ''book_flight'' msg_book ''collect_booking_type'')))
   \<and> (\<not> contains_any (lower u) booking_keywords
        \<and> contains_any (lower u) status_keywords \<longrightarrow>
      mock_ai_response u s =
        (s, Inr (keyword_result s ''check_status'' msg_status ''collect_flight_id'')))
   \<and> (\<not> contains_any (lower u) booking_keywords
        \<and> \<not> contains_any (lower u) status_keywords
        \<and> contains_any (lower u) cancel_keywords \<longrightarrow>
      mock_ai_response u s =
        (s, Inr (keyword_result s ''cancel_booking'' msg_cancel ''collect_booking_id'')))
   \<and> (\<not> contains_any (lower u) booking_keywords
        \<and> \<not> contains_any (lower u) status_keywords
        \<and> \<not> contains_any (lower u) cancel_keywords
        \<and> contains_any (lower u) domestic_keywords \<longrightarrow>
      mock_ai_response u s =
        (s, Inr (keyword_result s ''domestic_flight'' msg_domestic ''collect_origin'')))
   \<and> (\<not> contains_any (lower u) booking_keywords
        \<and> \<not> contains_any (lower u) status_keywords
        \<and> \<not> contains_any (lower u) cancel_keywords
        \<and> \<not> contains_any (lower u) domestic_keywords
        \<and> contains_any (lower u) international_keywords \<longrightarrow>
      mock_ai_response u s =
        (s, Inr (keyword_result s ''international_flight'' msg_international
                   ''collect_origin'')))
   \<and> (\<not> contains_any (lower u) booking_keywords
        \<and> \<not> contains_any (lower u) status_keywords
        \<and> \<not> contains_any (lower u) cancel_keywords
        \<and> \<not> contains_any (lower u) domestic_keywords
        \<and> \<not> contains_any (lower u) international_keywords
        \<and> contains_any (lower u) agent_keywords \<longrightarrow>
      mock_ai_response u s =
        (s, Inr (keyword_result s ''speak_to_agent'' msg_agent ''transfer_agent'')))"
  by (simp add: mock_ai_response_def decide_def build_result_def keyword_result_def Let_def)


text \<open>One utterance per branch, the first ones containing keywords of later branches too.\<close>

theorem keyword_priority_witness:
  "mock_ai_response ''Please BOOK it, then check status, cancel, domestic, international, agent''
      (booking_session None) =
     (booking_session None,
      Inr (keyword_result (booking_session None) ''book_flight'' msg_book
             ''collect_booking_type''))
   \<and> mock_ai_response ''check flight status or cancel via an agent'' (booking_session None) =
     (booking_session None,
      Inr (keyword_result (booking_session None) ''check_status'' msg_status
             ''collect_flight_id''))
   \<and> mock_ai_response ''Cancel my domestic trip'' (booking_session None) =
     (booking_session None,
      Inr (keyword_result (booking_session None) ''cancel_booking'' msg_cancel
             ''collect_booking_id''))
   \<and> mock_ai_response ''Domestic, not international'' (booking_session None) =
     (booking_session None,
      Inr (keyword_result (booking_session None) ''domestic_flight'' msg_domestic
             ''collect_origin''))
   \<and> mock_ai_response ''International, says the agent'' (booking_session None) =
     (booking_session None,
      Inr (keyword_result (booking_session None) ''international_flight'' msg_international
             ''collect_origin''))
   \<and> mock_ai_response ''I need a human'' (booking_session None) =
     (booking_session None,
      Inr (keyword_result (booking_session None) ''speak_to_agent'' msg_agent
             ''transfer_agent''))"
proof -
  let ?u1 = "''Please BOOK it, then check status, cancel, domestic, international, agent''"
  let ?u2 = "''check flight status or cancel via an agent''"
  let ?u3 = "''Cancel my domestic trip''"
  let ?u4 = "''Domestic, not international''"
  let ?u5 = "''International, says the agent''"
  let ?u6 = "''I need a human''"
  let ?s = "booking_session None"
  have h1: "contains_any (lower ?u1) booking_keywords" by code_simp
  have h2: "\<not> contains_any (lower ?u2) booking_keywords
            \<and> contains_any (lower ?u2) status_keywords" by code_simp
  have h3: "\<not> contains_any (lower ?u3) booking_keywords
            \<and> \<not> contains_any (lower ?u3) status_keywords
            \<and> contains_any (lower ?u3) cancel_keywords" by code_simp
  have h4: "\<not> contains_any (lower ?u4) booking_keywords
            \<and> \<not> contains_any (lower ?u4) status_keywords
            \<and> \<not> contains_any (lower ?u4) cancel_keywords
            \<and> contains_any (lower ?u4) domestic_keywords" by code_simp
  have h5: "\<not> contains_any (lower ?u5) booking_keywords
            \<and> \<not> contains_any (lower ?u5) status_keywords
            \<and> \<not> contains_any (lower ?u5) cancel_keywords
            \<and> \<not> contains_any (lower ?u5) domestic_keywords
            \<and> contains_any (lower ?u5) international_keywords" by code_simp
  have h6: "\<not> contains_any (lower ?u6) booking_keywords
            \<and> \<not> contains_any (lower ?u6) status_keywords
            \<and> \<not> contains_any (lower ?u6) cancel_keywords
            \<and> \<not> contains_any (lower ?u6) domestic_keywords
            \<and> \<not> contains_any (lower ?u6) international_keywords
            \<and> contains_any (lower ?u6) agent_keywords" by code_simp
  have r1: "mock_ai_response ?u1 ?s =
      (?s, Inr (keyword_result ?s ''book_flight'' msg_book ''collect_booking_type''))"
    using keyword_priority [of ?u1 ?s] h1 by (elim conjE) (rule mp)
  have r2: "mock_ai_response ?u2 ?s =
      (?s, Inr (keyword_result ?s ''check_status'' msg_status ''collect_flight_id''))"
    using keyword_priority [of ?u2 ?s] h2 by (elim conjE) (rule mp, assumption, intro conjI)
  have r3: "mock_ai_response ?u3 ?s =
      (?s, Inr (keyword_result ?s ''cancel_booking'' msg_cancel ''collect_booking_id''))"
    using keyword_priority [of ?u3 ?s] h3 by (elim conjE) (rule mp, assumption, intro conjI)
  have r4: "mock_ai_response ?u4 ?s =
      (?s, Inr (keyword_result ?s ''domestic_flight'' msg_domestic ''collect_origin''))"
    using keyword_priority [of ?u4 ?s] h4 by (elim conjE) (rule mp, assumption, intro conjI)
  have r5: "mock_ai_response ?u5 ?s =
      (?s, Inr (keyword_result ?s ''international_flight'' msg_international ''collect_origin''))"
    using keyword_priority [of ?u5 ?s] h5 by (elim conjE) (rule mp, assumption, intro conjI)
  have r6: "mock_ai_response ?u6 ?s =
      (?s, Inr (keyword_result ?s ''speak_to_agent'' msg_agent ''transfer_agent''))"
    using keyword_priority [of ?u6 ?s] h6 by (elim conjE) (rule mp, assumption, intro conjI)
  from r1 r2 r3 r4 r5 r6 show ?thesis by (intro conjI)
qed

subsection \<open>The slot-filling turn\<close>

text \<open>
  C1. The claim: with current intent \<open>book_flight\<close>, booking data present and no
  keyword in the utterance, the policy returns a result and never raises. The code at
  the specification's own scenario (booking data holding the origin, utterance
  \<open>Delhi\<close>): the destination is stored in the session, and the \<open>return\<close> statement
  raises \<open>UnboundLocalError\<close>, because no slot branch assigns \<open>intent\<close>.
\<close>

theorem slot_filling_turn_raises:
  "mock_ai_response ''Delhi'' (booking_session (Some [(''origin'', VStr ''Mumbai'')])) =
     (booking_session (Some [(''origin'', VStr ''Mumbai''), (''destination'', VStr ''Delhi'')]),
      Inl UnboundLocalError)"
  by code_simp

text \<open>
  C5. The claim: on the slot-filling path (intent \<open>book_flight\<close>, booking data not
  null, no keyword) the first missing slot is set to the utterance and the prompt for
  the next slot is returned. The code at the input of the repository's test
  \<open>test_context_aware_responses\<close> (intent set, an empty dictionary stored, utterance
  \<open>Mumbai\<close>): the lookup returns the session, its booking data is the empty
  dictionary, which the guard of the context branch takes for absent; no slot is filled
  and the reply is the general fallback, which contains neither of the two phrases the
  test looks for.
\<close>

theorem empty_booking_data_not_filled:
  "fst (get_session (\<lambda>k. 0) ''c1'' test_context_store) = Some 0
   \<and> current_intent (objects test_context_store 0) = Some ''book_flight''
   \<and> booking_data (objects test_context_store 0) = Some []
   \<and> mock_ai_response ''Mumbai'' (objects test_context_store 0) =
       (objects test_context_store 0,
        Inr \<lparr>res_call_id = ''c1'', res_message = msg_unknown, res_intent = ''unknown'',
             res_action = None, res_confidence = 85 / 100, res_parameters = []\<rparr>)
   \<and> \<not> str_in ''destination'' (lower msg_unknown)
   \<and> \<not> str_in ''where to'' (lower msg_unknown)"
  by code_simp

subsection \<open>What a turn changes in the session\<close>

text \<open>
  C6, as stated, fails: the policy is not pure with respect to the session. With origin
  and destination stored, the utterance \<open>2025-11-15\<close> changes the booking data.
\<close>

theorem session_mutated_counterexample:
  "booking_data (fst (mock_ai_response ''2025-11-15''
      (booking_session (Some [(''origin'', VStr ''Mumbai''), (''destination'', VStr ''Delhi'')]))))
   \<noteq> booking_data
      (booking_session (Some [(''origin'', VStr ''Mumbai''), (''destination'', VStr ''Delhi'')]))"
  by code_simp

text \<open>
  C6, amended. A turn changes no field of the session other than the booking data. When
  a keyword matches, the intent is not \<open>book_flight\<close> or the booking data is null,
  the session is unchanged altogether. Booking data \<open>b\<close> is still there after the
  turn, and is either left as it is or extended at the end by exactly one item: the
  first missing slot, a key that \<open>b\<close> did not hold, with the utterance as its value;
  the items already there keep their places and values.
\<close>

theorem session_frame:
  "fst (mock_ai_response u s) = s\<lparr>booking_data := booking_data (fst (mock_ai_response u s))\<rparr>
   \<and> (keyword_matched (lower u) \<or> current_intent s \<noteq> Some ''book_flight''
        \<or> booking_data s = None \<longrightarrow> fst (mock_ai_response u s) = s)
   \<and> (booking_data s = Some b \<longrightarrow>
        booking_data (fst (mock_ai_response u s)) = Some b
        \<or> (\<exists>key. first_missing b = Some key \<and> map_of b key = None
              \<and> booking_data (fst (mock_ai_response u s)) = Some (b @ [(key, VStr u)])))"
proof (cases "keyword_matched (lower u)")
  case True
  with mock_keyword [of u s] show ?thesis by simp
next
  case nk: False
  show ?thesis
  proof (cases "current_intent s = Some ''book_flight'' \<and> truthy (booking_data s)")
    case False
    with nk mock_other [of u s] show ?thesis by simp
  next
    case True
    then obtain b' where b': "booking_data s = Some b'" "b' \<noteq> []"
      by (cases "booking_data s") auto
    show ?thesis
    proof (cases "first_missing b'")
      case None
      with nk True b' mock_full [of u s b'] show ?thesis by simp
    next
      case (Some k)
      with nk True b' slot_filling_step [of u s b' k] first_missing_absent [of b' k]
      show ?thesis by auto
    qed
  qed
qed

text \<open>A keyword turn leaves the session alone; a slot turn adds the date.\<close>

theorem session_frame_witness:
  "fst (mock_ai_response ''I want to book a flight'' (booking_session (Some full_booking)))
     = booking_session (Some full_booking)
   \<and> booking_data (fst (mock_ai_response ''2025-11-15''
        (booking_session (Some [(''origin'', VStr ''Mumbai''), (''destination'', VStr ''Delhi'')]))))
     = Some [(''origin'', VStr ''Mumbai''), (''destination'', VStr ''Delhi''),
             (''date'', VStr ''2025-11-15'')]"
proof -
  let ?b = "[(''origin'', VStr ''Mumbai''), (''destination'', VStr ''Delhi'')]"
  have k: "keyword_matched (lower ''I want to book a flight'')" by code_simp
  have b: "booking_data (booking_session (Some ?b)) = Some ?b"
    by (simp add: booking_session_def)
  have m: "first_missing ?b = Some ''date''" by code_simp
  have n: "booking_data (fst (mock_ai_response ''2025-11-15'' (booking_session (Some ?b))))
             \<noteq> Some ?b" by code_simp
  from session_frame [of "''I want to book a flight''" "booking_session (Some full_booking)"] k
  have "fst (mock_ai_response ''I want to book a flight'' (booking_session (Some full_booking)))
          = booking_session (Some full_booking)" by blast
  moreover from session_frame [of "''2025-11-15''" "booking_session (Some ?b)" ?b] b n
  have "\<exists>key. first_missing ?b = Some key
          \<and> booking_data (fst (mock_ai_response ''2025-11-15'' (booking_session (Some ?b))))
              = Some (?b @ [(key, VStr ''2025-11-15'')])" by blast
  ultimately show ?thesis using m by auto
qed

subsection \<open>Confidence\<close>

text \<open>
  C7, as stated, fails in its second half: the confidence of a keyword branch cannot be
  told from the one returned inside the context branch. With all five slots filled, a
  turn without keyword returns the fallback with confidence 0.85, the value a keyword
  turn returns.
\<close>

theorem slot_path_confidence_counterexample:
  "snd (mock_ai_response ''yes please'' (booking_session (Some full_booking))) =
     Inr \<lparr>res_call_id = ''c1'', res_message = msg_rephrase, res_intent = ''unknown'',
          res_action = None, res_confidence = 85 / 100, res_parameters = []\<rparr>
   \<and> snd (mock_ai_response ''book a flight'' (booking_session (Some full_booking))) =
     Inr \<lparr>res_call_id = ''c1'', res_message = msg_book, res_intent = ''book_flight'',
          res_action = Some ''collect_booking_type'', res_confidence = 85 / 100,
          res_parameters = []\<rparr>
   \<and> confidence_of (snd (mock_ai_response ''yes please'' (booking_session (Some full_booking))))
     = confidence_of (snd (mock_ai_response ''book a flight''
         (booking_session (Some full_booking))))"
  by code_simp

text \<open>
  C7, amended. When a keyword matches, the policy returns a result with confidence 0.85;
  and 0.85 is the confidence of every result the policy returns, on any path.
\<close>

theorem confidence_constant:
  "(keyword_matched (lower u) \<longrightarrow>
      confidence_of (snd (mock_ai_response u s)) = Some (85 / 100))
   \<and> (confidence_of (snd (mock_ai_response u s)) = None
       \<or> confidence_of (snd (mock_ai_response u s)) = Some (85 / 100))"
proof -
  have "confidence_of (build_result s' ls) = None
        \<or> confidence_of (build_result s' ls) = Some (85 / 100)" for s' ls
    by (simp add: confidence_of_def build_result_def split: option.splits)
  moreover have "keyword_matched (lower u) \<Longrightarrow>
      confidence_of (snd (mock_ai_response u s)) \<noteq> None"
    using mock_keyword [of u s] by (auto simp: confidence_of_def)
  ultimately show ?thesis by (metis mock_snd)
qed

text \<open>A status request.\<close>

theorem confidence_constant_witness:
  "confidence_of (snd (mock_ai_response ''check flight status'' (booking_session None)))
     = Some (85 / 100)"
proof -
  have k: "keyword_matched (lower ''check flight status'')" by code_simp
  from confidence_constant [of "''check flight status''" "booking_session None"] k
  show ?thesis by blast
qed

subsection \<open>The session store\<close>

text \<open>
  C2. The claim: a lookup of an expired session ends it with status \<open>FAILED\<close>, removes
  it from the store and returns nothing. The code, on a store with a 30 minute timeout
  whose only session started at time 0 and is looked up one microsecond after the
  timeout has passed: the session is expired, the lookup returns \<open>None\<close> and empties the dictionary, but the status
  written to the session object is \<open>COMPLETED\<close>, the default of \<open>end_session\<close>.
  The periodic sweep on the same store does write \<open>FAILED\<close>.
\<close>

theorem expired_lookup_marks_completed:
  "map_of (sessions one_session_store) ''c1'' = Some 0
   \<and> is_session_expired (\<lambda>k. 1800000001) (session_timeout one_session_store)
        (objects one_session_store 0)
   \<and> fst (get_session (\<lambda>k. 1800000001) ''c1'' one_session_store) = None
   \<and> sessions (snd (get_session (\<lambda>k. 1800000001) ''c1'' one_session_store)) = []
   \<and> status (objects (snd (get_session (\<lambda>k. 1800000001) ''c1'' one_session_store)) 0) = COMPLETED
   \<and> fst (cleanup_expired_sessions (\<lambda>k. 1800000001) one_session_store) = 1
   \<and> status (objects (snd (cleanup_expired_sessions (\<lambda>k. 1800000001) one_session_store)) 0)
       = FAILED"
  by code_simp

text \<open>
  C8. Creating a session under a call id that is in the store returns the stored
  session, the very object and hence its original start time, and leaves the store
  (dictionary and objects) as it was, whatever the caller number and the time.
\<close>

theorem create_session_idempotent:
  "map_of (sessions mgr) cid = Some r \<Longrightarrow>
     create_session clock cid caller mgr = (r, mgr)
     \<and> start_time (objects (snd (create_session clock cid caller mgr)) r)
         = start_time (objects mgr r)"
  by (simp add: create_session_present)

text \<open>A second creation 500 microseconds later, from another number.\<close>

theorem create_session_idempotent_witness:
  "create_session (\<lambda>k. 500) ''c1'' ''+15550100'' one_session_store = (0, one_session_store)
   \<and> start_time (objects (snd (create_session (\<lambda>k. 500) ''c1'' ''+15550100''
         one_session_store)) 0) = 0"
proof -
  have h: "map_of (sessions one_session_store) ''c1'' = Some 0" by code_simp
  have t: "start_time (objects one_session_store 0) = 0" by code_simp
  from create_session_idempotent [OF h, of "\<lambda>k. 500" "''+15550100''"] t
  show ?thesis by simp
qed

text \<open>
  C10. Creation does not test expiry: when the stored session under the call id is
  expired at the time of the call, creation still returns that session and changes
  nothing, while a lookup at the same time returns \<open>None\<close>.
\<close>

theorem create_session_ignores_expiry:
  "map_of (sessions mgr) cid = Some r \<Longrightarrow>
   is_session_expired clock (session_timeout mgr) (objects mgr r) \<Longrightarrow>
     create_session clock cid caller mgr = (r, mgr)
     \<and> fst (get_session clock cid mgr) = None"
  by (simp add: create_session_present get_session_expired(1))

text \<open>The session started at time 0, created again one microsecond after the timeout
  has passed.\<close>

theorem create_session_ignores_expiry_witness:
  "create_session (\<lambda>k. 1800000001) ''c1'' ''+919876543210'' one_session_store
     = (0, one_session_store)
   \<and> fst (get_session (\<lambda>k. 1800000001) ''c1'' one_session_store) = None"
proof -
  have h: "map_of (sessions one_session_store) ''c1'' = Some 0" by code_simp
  have e: "is_session_expired (\<lambda>k. 1800000001) (session_timeout one_session_store)
             (objects one_session_store 0)" by code_simp
  from create_session_ignores_expiry [OF h e] show ?thesis .
qed

subsection \<open>The transaction processors\<close>

text \<open>
  C3, as stated, fails: a booking payload without a required field does not produce a
  result with \<open>success=false\<close>. Without \<open>passenger_name\<close> the processor raises
  \<open>ValidationError\<close> out of the construction of \<open>FlightBooking\<close>.
\<close>

theorem booking_missing_field_counterexample:
  "process_flight_booking exact ''20251104093000'' ''c1''
     (AList.delete ''passenger_name'' manual_payload) = Inl ValidationError"
  by code_simp

text \<open>
  C3, amended. For every booking payload that lacks one of the required fields
  (\<open>origin\<close>, \<open>destination\<close>, \<open>travel_date\<close>, \<open>passenger_name\<close>,
  \<open>passenger_contact\<close>, \<open>booking_type\<close>), the processor returns no result: it
  raises \<open>ValidationError\<close>, whatever the other fields hold and however the library
  converts values.
\<close>

theorem booking_missing_field_raises:
  "key \<in> set required_fields \<Longrightarrow> map_of data key = None \<Longrightarrow>
     process_flight_booking cv stamp cid data = Inl ValidationError"
  using make_FlightBooking_missing [of key data cv]
  by (simp add: process_flight_booking_def)

text \<open>The manual scenario's payload without its origin.\<close>

theorem booking_missing_field_raises_witness:
  "process_flight_booking exact ''20251104093000'' ''c1''
     (AList.delete ''origin'' manual_payload) = Inl ValidationError"
proof -
  have k: "''origin'' \<in> set required_fields" by (simp add: required_fields_def)
  have m: "map_of (AList.delete ''origin'' manual_payload) ''origin'' = None" by code_simp
  from booking_missing_field_raises [OF k m] show ?thesis .
qed

text \<open>
  C9, as stated, fails in its first half: the cancellation processor does not validate
  that a booking id is present. A request without one is answered with success and the
  booking id \<open>None\<close>.
\<close>

theorem cancellation_unvalidated_counterexample:
  "process_cancellation ''c1'' [] =
     \<lparr>cx_success = True, cx_booking_id = VNone,
      cx_message = ''Booking cancelled successfully''\<rparr>"
  by (simp add: process_cancellation_def dict_get_def)

text \<open>
  C9, amended. Every cancellation request, with or without a booking id, is answered
  with \<open>success=true\<close>, the message ``Booking cancelled successfully'' and the booking
  id as read from the request, \<open>None\<close> when the key is missing.
\<close>

theorem cancellation_always_succeeds:
  "process_cancellation cid data =
     \<lparr>cx_success = True,
      cx_booking_id = (case map_of data ''booking_id'' of None \<Rightarrow> VNone | Some v \<Rightarrow> v),
      cx_message = ''Booking cancelled successfully''\<rparr>"
  by (simp add: process_cancellation_def dict_get_def)

end
